theory Spec2Isabelle
  imports Complex_Main "HOL-Library.Multiset"
begin

section \<open>Conventions of the embedding\<close>

text \<open>
  The scoring service is written in Python. Python's unbounded integers are modelled as
  \<open>int\<close>, its strings as \<open>string\<close>, and its floats as \<open>real\<close>: every
  float operation is read as the exact operation on real numbers, so rounding error of the
  binary representation, overflow and NaN are outside the model. Strings are taken to be
  ASCII, so that \<open>length\<close> counts what \<open>len\<close> counts. Where HOL's total
  functions differ from what the source does (a division by zero, a column lookup on an
  empty frame, a raised exception) the difference is written out in the definitions.
\<close>

subsection \<open>Numeric helpers of the Python runtime\<close>

definition py_int :: "real \<Rightarrow> int" where
  \<comment> \<open>\<open>int(x)\<close> on a float truncates towards zero.\<close>
  "py_int x = (if 0 \<le> x then \<lfloor>x\<rfloor> else \<lceil>x\<rceil>)"

definition round_half_even :: "real \<Rightarrow> int" where
  \<comment> \<open>Rounding to the nearest integer, ties to the even neighbour, as \<open>round\<close> does.\<close>
  "round_half_even y =
     (let f = \<lfloor>y\<rfloor>; d = y - real_of_int f
      in if d < 1 / 2 then f else if d > 1 / 2 then f + 1 else if even f then f else f + 1)"

definition py_round2 :: "real \<Rightarrow> real" where
  \<comment> \<open>\<open>round(x, 2)\<close> on a float.\<close>
  "py_round2 x = real_of_int (round_half_even (x * 100)) / 100"

definition lower_char :: "char \<Rightarrow> char" where
  "lower_char c =
     (case map_of (zip ''ABCDEFGHIJKLMNOPQRSTUVWXYZ'' ''abcdefghijklmnopqrstuvwxyz'') c of
        Some l \<Rightarrow> l
      | None \<Rightarrow> c)"

definition lower :: "string \<Rightarrow> string" where
  \<comment> \<open>\<open>str.lower()\<close> on ASCII text.\<close>
  "lower s = map lower_char s"

subsection \<open>Exceptions\<close>

datatype py_error =
    KeyError string
  | ValueError string
  | OverflowError string
  | ValidationError string
  | KafkaError string

fun str_of_error :: "py_error \<Rightarrow> string" where
  "str_of_error (KeyError m) = m"
| "str_of_error (ValueError m) = m"
| "str_of_error (OverflowError m) = m"
| "str_of_error (ValidationError m) = m"
| "str_of_error (KafkaError m) = m"

section \<open>Data model (utils/types.py)\<close>

record token_info =
  amount :: int
  amountUSD :: real
  address :: string
  symbol :: string

record transaction =
  document_id :: string
  action :: string
  timestamp :: int
  caller :: string
  protocol :: string
  poolId :: string
  poolName :: string
  tokenIn :: "token_info option"
  tokenOut :: "token_info option"
  token0 :: "token_info option"
  token1 :: "token_info option"

record protocol_data =
  protocolType :: string
  transactions :: "transaction list"

record wallet_transaction_input =
  wallet_address :: string
  data :: "protocol_data list"

record category_features =
  total_deposit_usd :: real
  total_swap_volume :: real
  num_deposits :: int
  num_swaps :: int
  avg_hold_time_days :: real
  unique_pools :: int
  total_withdraw_usd :: real
  num_withdraws :: int
  avg_transaction_size_usd :: real
  transaction_frequency_days :: real

definition default_features :: category_features where
  \<comment> \<open>\<open>CategoryFeatures()\<close>: every field at its declared default.\<close>
  "default_features =
     \<lparr>total_deposit_usd = 0, total_swap_volume = 0, num_deposits = 0, num_swaps = 0,
      avg_hold_time_days = 0, unique_pools = 0, total_withdraw_usd = 0, num_withdraws = 0,
      avg_transaction_size_usd = 0, transaction_frequency_days = 0\<rparr>"

definition category_features_fields :: "string list" where
  \<comment> \<open>The fields the class \<open>CategoryFeatures\<close> declares.\<close>
  "category_features_fields =
     [''total_deposit_usd'', ''total_swap_volume'', ''num_deposits'', ''num_swaps'',
      ''avg_hold_time_days'', ''unique_pools'', ''total_withdraw_usd'', ''num_withdraws'',
      ''avg_transaction_size_usd'', ''transaction_frequency_days'']"

definition setattr_check :: "string \<Rightarrow> py_error + unit" where
  \<comment> \<open>Attribute assignment on a pydantic model: \<open>BaseModel.__setattr__\<close> raises
      \<open>ValueError\<close> for a name that is not a declared field (the class does not allow
      extra fields).\<close>
  "setattr_check name =
     (if name \<in> set category_features_fields then Inr ()
      else Inl (ValueError (''\"CategoryFeatures\" object has no field \"'' @ name @ ''\"'')))"

record category_score =
  category :: string
  score :: real
  transaction_count :: int
  features :: category_features

definition valid_actions :: "string list" where
  "valid_actions = [''swap'', ''deposit'', ''withdraw'', ''add_liquidity'', ''remove_liquidity'']"

definition validate_action :: "string \<Rightarrow> py_error + string" where
  "validate_action v =
     (if v \<notin> set valid_actions then Inl (ValueError (''Invalid action: '' @ v)) else Inr v)"

definition startswith :: "string \<Rightarrow> string \<Rightarrow> bool" where
  "startswith v p = (take (length p) v = p)"

definition validate_wallet_address :: "string \<Rightarrow> py_error + string" where
  "validate_wallet_address v =
     (if \<not> startswith v ''0x'' \<or> length v \<noteq> 42
      then Inl (ValueError ''Invalid wallet address format'') else Inr v)"

section \<open>The scoring model (models/dex\_model.py)\<close>

subsection \<open>Transactions as a data frame\<close>

text \<open>
  A data frame is the list of its rows; the frame built from no rows has no columns, which
  is where the source's column lookups raise \<open>KeyError\<close>. A \<open>datetime\<close> is
  represented by its number of seconds since the epoch (the local zone is taken to be
  UTC), and the clock reading \<open>now\<close> by its whole seconds, which determine the
  whole days of every difference to a transaction time.
\<close>

record df_row =
  row_document_id :: string
  row_action :: string
  row_timestamp :: int
  row_caller :: string
  row_protocol :: string
  row_poolId :: string
  row_poolName :: string
  token_in_amount :: real
  token_out_amount :: real
  token0_amount :: real
  token1_amount :: real
  row_datetime :: int

definition fromtimestamp :: "int \<Rightarrow> py_error + int" where
  \<comment> \<open>\<open>datetime.fromtimestamp\<close> raises outside the years 1 to 9999.\<close>
  "fromtimestamp ts =
     (if - 62135596800 \<le> ts \<and> ts \<le> 253402300799 then Inr ts
      else Inl (OverflowError ''timestamp out of range''))"

definition amount_or_zero :: "token_info option \<Rightarrow> real" where
  \<comment> \<open>\<open>t.amountUSD if t else 0\<close>\<close>
  "amount_or_zero t = (case t of None \<Rightarrow> 0 | Some ti \<Rightarrow> amountUSD ti)"

definition tx_row :: "transaction \<Rightarrow> py_error + df_row" where
  "tx_row tx =
     (case fromtimestamp (timestamp tx) of
        Inl e \<Rightarrow> Inl e
      | Inr dt \<Rightarrow>
          Inr \<lparr>row_document_id = document_id tx, row_action = action tx,
               row_timestamp = timestamp tx, row_caller = caller tx,
               row_protocol = protocol tx, row_poolId = poolId tx,
               row_poolName = poolName tx,
               token_in_amount = amount_or_zero (tokenIn tx),
               token_out_amount = amount_or_zero (tokenOut tx),
               token0_amount = amount_or_zero (token0 tx),
               token1_amount = amount_or_zero (token1 tx),
               row_datetime = dt\<rparr>)"

fun build_rows :: "transaction list \<Rightarrow> py_error + df_row list" where
  "build_rows [] = Inr []"
| "build_rows (tx # txs) =
     (case tx_row tx of
        Inl e \<Rightarrow> Inl e
      | Inr r \<Rightarrow> (case build_rows txs of Inl e \<Rightarrow> Inl e | Inr rs \<Rightarrow> Inr (r # rs)))"

definition transactions_to_dataframe :: "transaction list \<Rightarrow> py_error + df_row list" where
  \<comment> \<open>\<open>sort_values('timestamp')\<close> on the frame without columns raises \<open>KeyError\<close>.\<close>
  "transactions_to_dataframe txs =
     (case build_rows txs of
        Inl e \<Rightarrow> Inl e
      | Inr rows \<Rightarrow>
          if rows = [] then Inl (KeyError ''timestamp'')
          else Inr (sort_key row_timestamp rows))"

subsection \<open>Feature extraction\<close>

definition is_deposit :: "df_row \<Rightarrow> bool" where
  "is_deposit r = (row_action r \<in> set [''deposit'', ''add_liquidity''])"

definition is_swap :: "df_row \<Rightarrow> bool" where
  "is_swap r = (row_action r = ''swap'')"

definition is_withdraw :: "df_row \<Rightarrow> bool" where
  "is_withdraw r = (row_action r \<in> set [''withdraw'', ''remove_liquidity''])"

definition timedelta_days :: "int \<Rightarrow> int \<Rightarrow> int" where
  \<comment> \<open>\<open>(a - b).days\<close>: whole days, rounded towards minus infinity.\<close>
  "timedelta_days a b = (a - b) div 86400"

fun maximum :: "int list \<Rightarrow> int" where
  "maximum [] = 0"
| "maximum (x # xs) = fold max xs x"

fun minimum :: "int list \<Rightarrow> int" where
  "minimum [] = 0"
| "minimum (x # xs) = fold min xs x"

definition extract_dex_features :: "int \<Rightarrow> df_row list \<Rightarrow> category_features" where
  \<comment> \<open>On the frame without columns the first lookup \<open>df['action']\<close> raises \<open>KeyError\<close>,
      which the function catches: the features keep their defaults.\<close>
  "extract_dex_features now df =
     (if df = [] then default_features
      else
        let deposits = filter is_deposit df;
            swaps = filter is_swap df;
            withdraws = filter is_withdraw df;
            n_deposits = int (length deposits);
            n_swaps = int (length swaps);
            n_withdraws = int (length withdraws);
            deposit_usd = sum_list (map token0_amount deposits)
                        + sum_list (map token1_amount deposits);
            swap_volume = sum_list (map token_in_amount swaps);
            withdraw_usd = sum_list (map token0_amount withdraws)
                         + sum_list (map token1_amount withdraws);
            pools = int (length (remdups (map row_poolId df)));
            total_volume = deposit_usd + swap_volume + withdraw_usd;
            total_transactions = int (length df);
            avg_size = (if total_transactions > 0
                        then total_volume / real_of_int total_transactions else 0);
            hold_times = map (\<lambda>r. timedelta_days now (row_datetime r)) deposits;
            avg_hold = (if n_deposits > 0
                        then (if length hold_times > 0
                              then real_of_int (sum_list hold_times) / real (length hold_times)
                              else 0)
                        else 0);
            frequency =
              (if length df > 1
               then (let time_span = timedelta_days (maximum (map row_datetime df))
                                                    (minimum (map row_datetime df))
                     in if time_span > 0 then real_of_int time_span / real (length df) else 0)
               else 0)
        in \<lparr>total_deposit_usd = deposit_usd, total_swap_volume = swap_volume,
            num_deposits = n_deposits, num_swaps = n_swaps,
            avg_hold_time_days = avg_hold, unique_pools = pools,
            total_withdraw_usd = withdraw_usd, num_withdraws = n_withdraws,
            avg_transaction_size_usd = avg_size,
            transaction_frequency_days = frequency\<rparr>)"

subsection \<open>Scores\<close>

definition calculate_lp_score :: "category_features \<Rightarrow> real" where
  \<comment> \<open>The retention ratio divides by \<open>total_deposit_usd\<close>. The extracted totals are
      numpy floats, for which a positive number divided by zero is \<open>inf\<close> (a warning, no
      exception), and \<open>min(inf, 1000)\<close> is 1000.\<close>
  "calculate_lp_score f =
     (let score1 = (if total_deposit_usd f \<ge> 100000 then 300
                    else if total_deposit_usd f \<ge> 10000 then 200
                    else if total_deposit_usd f \<ge> 1000 then 150
                    else if total_deposit_usd f \<ge> 100 then 100
                    else 0);
          score2 = score1 + (if num_deposits f \<ge> 50 then 200
                             else if num_deposits f \<ge> 20 then 150
                             else if num_deposits f \<ge> 5 then 100
                             else if num_deposits f \<ge> 1 then 50
                             else 0);
          score3 = score2 + (if avg_hold_time_days f \<ge> 365 then 200
                             else if avg_hold_time_days f \<ge> 90 then 150
                             else if avg_hold_time_days f \<ge> 30 then 100
                             else if avg_hold_time_days f \<ge> 7 then 50
                             else 0);
          score4 = score3 + (if unique_pools f \<ge> 5 then 100
                             else if unique_pools f \<ge> 3 then 50
                             else if unique_pools f \<ge> 1 then 25
                             else 0)
      in if total_deposit_usd f > total_withdraw_usd f
         then (if total_deposit_usd f = 0 then 1000
               else min (score4
                         + (total_deposit_usd f - total_withdraw_usd f) / total_deposit_usd f * 100)
                        1000)
         else min score4 1000)"

definition calculate_swap_score :: "category_features \<Rightarrow> real" where
  "calculate_swap_score f =
     (let score1 = (if total_swap_volume f \<ge> 100000 then 300
                    else if total_swap_volume f \<ge> 10000 then 200
                    else if total_swap_volume f \<ge> 1000 then 150
                    else if total_swap_volume f \<ge> 100 then 100
                    else 0);
          score2 = score1 + (if num_swaps f \<ge> 50 then 200
                             else if num_swaps f \<ge> 20 then 150
                             else if num_swaps f \<ge> 5 then 100
                             else if num_swaps f \<ge> 1 then 50
                             else 0);
          score3 = score2 + (if avg_transaction_size_usd f > 0
                             then (if avg_transaction_size_usd f \<ge> 1000 then 100
                                   else if avg_transaction_size_usd f \<ge> 100 then 75
                                   else if avg_transaction_size_usd f \<ge> 10 then 50
                                   else 0)
                             else 0);
          score4 = score3 + (if unique_pools f \<ge> 5 then 100
                             else if unique_pools f \<ge> 3 then 50
                             else if unique_pools f \<ge> 1 then 25
                             else 0)
      in min score4 1000)"

definition normalize_score :: "real \<Rightarrow> real" where
  "normalize_score s = max 0 (min 1000 (1000 / (1 + exp (- (s - 500) / 200))))"

definition calculate_dex_score :: "int \<Rightarrow> transaction list \<Rightarrow> py_error + category_score" where
  "calculate_dex_score now txs =
     (case transactions_to_dataframe txs of
        Inl e \<Rightarrow> Inl e
      | Inr df \<Rightarrow>
          let feats = extract_dex_features now df;
              lp_score = calculate_lp_score feats;
              swap_score = calculate_swap_score feats;
              combined_score = lp_score * (6 / 10) + swap_score * (4 / 10);
              normalized_score = normalize_score combined_score
          in Inr \<lparr>category = ''dexes'', score = py_round2 normalized_score,
                  transaction_count = int (length txs), features = feats\<rparr>)"

definition calculate_basic_protocol_score :: "protocol_data \<Rightarrow> py_error + category_score" where
  \<comment> \<open>The first assignment is \<open>features.transaction_count = ...\<close>. The count the source
      reads back from that attribute is the local \<open>n\<close> here; \<open>round\<close> of an integer
      to two digits is that integer.\<close>
  "calculate_basic_protocol_score pd =
     (let n = int (length (transactions pd)) in
      case setattr_check ''transaction_count'' of
        Inl e \<Rightarrow> Inl e
      | Inr _ \<Rightarrow>
          (case setattr_check ''unique_pools'' of
             Inl e \<Rightarrow> Inl e
           | Inr _ \<Rightarrow>
               let feats = default_features
                     \<lparr>unique_pools := int (length (remdups (map poolId (transactions pd))))\<rparr>;
                   base_score = min (n * 10 + unique_pools feats * 5) 500
               in Inr \<lparr>category = protocolType pd, score = real_of_int base_score,
                       transaction_count = int (length (transactions pd)),
                       features = feats\<rparr>))"

subsection \<open>Wallet aggregation\<close>

type_synonym wallet_acc = "category_score list \<times> real \<times> real"

fun process_loop :: "int \<Rightarrow> protocol_data list \<Rightarrow> wallet_acc \<Rightarrow> py_error + wallet_acc" where
  "process_loop now [] acc = Inr acc"
| "process_loop now (pd # rest) (category_scores, total_score, total_weight) =
     (if lower (protocolType pd) = ''dexes''
      then (case calculate_dex_score now (transactions pd) of
              Inl e \<Rightarrow> Inl e
            | Inr cs \<Rightarrow>
                process_loop now rest
                  (category_scores @ [cs], total_score + score cs * 1, total_weight + 1))
      else (case calculate_basic_protocol_score pd of
              Inl e \<Rightarrow> Inl e
            | Inr cs \<Rightarrow>
                process_loop now rest
                  (category_scores @ [cs], total_score + score cs * (1 / 2),
                   total_weight + 1 / 2)))"

definition process_wallet_data ::
  "int \<Rightarrow> protocol_data list \<Rightarrow> py_error + (category_score list \<times> real)" where
  "process_wallet_data now wallet_data =
     (case process_loop now wallet_data ([], 0, 0) of
        Inl e \<Rightarrow> Inl e
      | Inr (category_scores, total_score, total_weight) \<Rightarrow>
          Inr (category_scores,
               if total_weight > 0 then total_score / total_weight else 0))"

section \<open>Running statistics of the stream processor (kafka\_service.py)\<close>

record running_stats =
  total_wallets_processed :: int
  successful_wallets :: int
  failed_wallets :: int
  total_processing_time_ms :: int
  last_processed_wallet :: "string option"
  start_time :: real

definition init_stats :: "real \<Rightarrow> running_stats" where
  \<comment> \<open>The dictionary built in \<open>KafkaService.__init__\<close>; the argument is \<open>time.time()\<close>.\<close>
  "init_stats t0 =
     \<lparr>total_wallets_processed = 0, successful_wallets = 0, failed_wallets = 0,
      total_processing_time_ms = 0, last_processed_wallet = None, start_time = t0\<rparr>"

definition update_stats :: "running_stats \<Rightarrow> bool \<Rightarrow> int \<Rightarrow> string \<Rightarrow> running_stats" where
  "update_stats st success processing_time_ms addr =
     (let st1 = st\<lparr>total_wallets_processed := total_wallets_processed st + 1\<rparr>;
          st2 = st1\<lparr>total_processing_time_ms := total_processing_time_ms st1 + processing_time_ms\<rparr>;
          st3 = (if success then st2\<lparr>successful_wallets := successful_wallets st2 + 1\<rparr>
                 else st2\<lparr>failed_wallets := failed_wallets st2 + 1\<rparr>)
      in st3\<lparr>last_processed_wallet := Some addr\<rparr>)"

record stats_snapshot =
  snap_total_wallets_processed :: int
  snap_successful_wallets :: int
  snap_failed_wallets :: int
  snap_total_processing_time_ms :: int
  snap_last_processed_wallet :: "string option"
  snap_start_time :: real
  uptime_seconds :: int
  average_processing_time_ms :: real

definition get_stats :: "real \<Rightarrow> running_stats \<Rightarrow> stats_snapshot" where
  \<comment> \<open>The first argument is the clock reading \<open>time.time()\<close> taken by the call.\<close>
  "get_stats now_time st =
     \<lparr>snap_total_wallets_processed = total_wallets_processed st,
      snap_successful_wallets = successful_wallets st,
      snap_failed_wallets = failed_wallets st,
      snap_total_processing_time_ms = total_processing_time_ms st,
      snap_last_processed_wallet = last_processed_wallet st,
      snap_start_time = start_time st,
      uptime_seconds = py_int (now_time - start_time st),
      average_processing_time_ms =
        (if total_wallets_processed st > 0
         then real_of_int (total_processing_time_ms st) / real_of_int (total_wallets_processed st)
         else 0)\<rparr>"

type_synonym stats_update = "bool \<times> int \<times> string"

definition apply_update :: "running_stats \<Rightarrow> stats_update \<Rightarrow> running_stats" where
  "apply_update st u = (case u of (success, ms, w) \<Rightarrow> update_stats st success ms w)"

definition run_updates :: "real \<Rightarrow> stats_update list \<Rightarrow> running_stats" where
  \<comment> \<open>The counters after a sequence of calls of \<open>_update_stats\<close> on a fresh service.\<close>
  "run_updates t0 us = foldl apply_update (init_stats t0) us"

section \<open>The stream processor (services/kafka\_service.py)\<close>

subsection \<open>Fixed-point formatting\<close>

definition digit_char :: "nat \<Rightarrow> char" where
  "digit_char d = ''0123456789'' ! (d mod 10)"

function str_nat :: "nat \<Rightarrow> string" where
  "str_nat n = (if n < 10 then [digit_char n] else str_nat (n div 10) @ [digit_char (n mod 10)])"
  by pat_completeness auto
termination
  by (relation "measure (\<lambda>n. n)") auto

declare str_nat.simps [simp del]

fun frac_digits :: "nat \<Rightarrow> nat \<Rightarrow> string" where
  "frac_digits 0 n = []"
| "frac_digits (Suc k) n = frac_digits k (n div 10) @ [digit_char (n mod 10)]"

definition format_18f :: "real \<Rightarrow> string" where
  \<comment> \<open>The format specification \<open>.18f\<close>: the value rounded to 18 decimal places, written
      with its sign, its integer part, a point and 18 digits.\<close>
  "format_18f x =
     (let n = nat (round_half_even (\<bar>x\<bar> * 10 ^ 18))
      in (if x < 0 then ''-'' else '''') @ str_nat (n div 10 ^ 18) @ ''.''
         @ frac_digits 18 (n mod 10 ^ 18))"

definition is_digit :: "char \<Rightarrow> bool" where
  "is_digit c = (c \<in> set ''0123456789'')"

definition is_fixed_point_18 :: "string \<Rightarrow> bool" where
  \<comment> \<open>An optional minus sign, at least one digit, a point, exactly 18 digits; in particular
      no exponent.\<close>
  "is_fixed_point_18 s =
     (let body = (case s of [] \<Rightarrow> s | c # cs \<Rightarrow> if c = CHR ''-'' then cs else s);
          int_part = takeWhile is_digit body;
          rest = dropWhile is_digit body
      in int_part \<noteq> [] \<and>
         (case rest of
            [] \<Rightarrow> False
          | c # ds \<Rightarrow> c = CHR ''.'' \<and> length ds = 18 \<and> list_all is_digit ds))"

subsection \<open>Outbound records\<close>

record wallet_score_success =
  ok_wallet_address :: string
  zscore :: string
  ok_timestamp :: int
  ok_processing_time_ms :: int
  ok_categories :: "category_score list"

record category_error =
  err_category :: string
  err_error :: string
  err_transaction_count :: int

record wallet_score_failure =
  fail_wallet_address :: string
  fail_error :: string
  fail_timestamp :: int
  fail_processing_time_ms :: int
  fail_categories :: "category_error list"

datatype outbound = Success wallet_score_success | Failure wallet_score_failure

subsection \<open>Environment of one message\<close>

text \<open>
  What the handler of one message reads from outside the repository: whether
  \<open>Decimal\<close> parses a string (the validator of \<open>zscore\<close>), whether the broker
  acknowledges a record (otherwise the send raises), the clock reading of the scoring
  model, and the readings of \<open>time.time()\<close> at the start, after scoring, and in the
  failure handler.
\<close>

record environment =
  decimal_parses :: "string \<Rightarrow> bool"
  broker_acks :: "outbound \<Rightarrow> bool"
  scoring_now :: int
  t_start :: real
  t_scored :: real
  t_success_stamp :: real
  t_failed :: real
  t_failure_stamp :: real

subsection \<open>Validation of the input message\<close>

definition action_errors :: "transaction \<Rightarrow> string list" where
  "action_errors tx =
     (case validate_action (action tx) of Inl e \<Rightarrow> [str_of_error e] | Inr _ \<Rightarrow> [])"

definition validation_errors :: "wallet_transaction_input \<Rightarrow> string list" where
  \<comment> \<open>pydantic runs every validator and collects the errors of all fields.\<close>
  "validation_errors m =
     (case validate_wallet_address (wallet_address m) of
        Inl e \<Rightarrow> [str_of_error e]
      | Inr _ \<Rightarrow> [])
     @ concat (map (\<lambda>pd. concat (map action_errors (transactions pd))) (data m))"

definition construct_input :: "wallet_transaction_input \<Rightarrow> py_error + wallet_transaction_input" where
  \<comment> \<open>\<open>WalletTransactionInput(**message_data)\<close> on a message whose fields have the
      declared types.\<close>
  "construct_input m =
     (if validation_errors m = [] then Inr m
      else Inl (ValidationError (concat (validation_errors m))))"

subsection \<open>Handling one message\<close>

definition create_error_categories :: "wallet_transaction_input \<Rightarrow> category_error list" where
  "create_error_categories m =
     map (\<lambda>pd. \<lparr>err_category = protocolType pd, err_error = ''Failed to process'',
                err_transaction_count = int (length (transactions pd))\<rparr>) (data m)"

definition publish :: "environment \<Rightarrow> outbound \<Rightarrow> py_error + unit" where
  "publish env r = (if broker_acks env r then Inr () else Inl (KafkaError ''send failed''))"

definition failure_record ::
  "environment \<Rightarrow> string \<Rightarrow> string \<Rightarrow> wallet_transaction_input \<Rightarrow> wallet_score_failure" where
  "failure_record env addr error_msg m =
     \<lparr>fail_wallet_address = addr, fail_error = error_msg,
      fail_timestamp = py_int (t_failure_stamp env),
      fail_processing_time_ms = py_int ((t_failed env - t_start env) * 1000),
      fail_categories = create_error_categories m\<rparr>"

type_synonym handler_result = "running_stats \<times> outbound list \<times> py_error option"

definition handle_failure ::
  "environment \<Rightarrow> running_stats \<Rightarrow> string \<Rightarrow> string \<Rightarrow> wallet_transaction_input
     \<Rightarrow> handler_result" where
  \<comment> \<open>An \<open>except\<close> branch of \<open>_process_message\<close>: publish the failure record, then update
      the statistics. A send that raises leaves the handler with that exception.\<close>
  "handle_failure env st addr error_msg m =
     (let r = Failure (failure_record env addr error_msg m)
      in case publish env r of
           Inl e \<Rightarrow> (st, [], Some e)
         | Inr _ \<Rightarrow>
             (update_stats st False (py_int ((t_failed env - t_start env) * 1000)) addr,
              [r], None))"

definition process_message ::
  "environment \<Rightarrow> running_stats \<Rightarrow> wallet_transaction_input \<Rightarrow> handler_result" where
  \<comment> \<open>The result is the statistics after the message, the records the broker acknowledged,
      and the exception that leaves the handler, if any.\<close>
  "process_message env st m =
     (case construct_input m of
        Inl e \<Rightarrow>
          handle_failure env st ''unknown'' (''Validation error: '' @ str_of_error e) m
      | Inr wallet_input \<Rightarrow>
          (case process_wallet_data (scoring_now env) (data wallet_input) of
             Inl e \<Rightarrow>
               handle_failure env st (wallet_address wallet_input)
                 (''Processing error: '' @ str_of_error e) m
           | Inr (category_scores, overall_score) \<Rightarrow>
               let ms = py_int ((t_scored env - t_start env) * 1000);
                   z = format_18f overall_score
               in if \<not> decimal_parses env z
                  then handle_failure env st (wallet_address wallet_input)
                         (''Validation error: zscore must be a valid decimal string'') m
                  else
                    let r = Success \<lparr>ok_wallet_address = wallet_address wallet_input,
                                      zscore = z,
                                      ok_timestamp = py_int (t_success_stamp env),
                                      ok_processing_time_ms = ms,
                                      ok_categories = category_scores\<rparr>
                    in case publish env r of
                         Inl e \<Rightarrow>
                           handle_failure env st (wallet_address wallet_input)
                             (''Processing error: '' @ str_of_error e) m
                       | Inr _ \<Rightarrow>
                           (update_stats st True ms (wallet_address wallet_input),
                            [r], None)))"

section \<open>Contracts named by the specification\<close>

definition is_hex_digit :: "char \<Rightarrow> bool" where
  "is_hex_digit c = (c \<in> set ''0123456789abcdefABCDEF'')"

definition address_contract :: "string \<Rightarrow> bool" where
  \<comment> \<open>The contract of the specification: \<open>0x\<close> followed by 40 hexadecimal characters.\<close>
  "address_contract v =
     (startswith v ''0x'' \<and> length v = 42 \<and> list_all is_hex_digit (drop 2 v))"

definition basic_score_spec :: "protocol_data \<Rightarrow> real" where
  \<comment> \<open>The fallback score of the specification:
      \<open>min(10 \<times> transaction_count + 5 \<times> unique_pools, 500)\<close>, rounded to 2 decimals.\<close>
  "basic_score_spec pd =
     py_round2 (real_of_int (min (10 * int (length (transactions pd))
                                   + 5 * int (card (poolId ` set (transactions pd)))) 500))"

definition bucket_weight :: "protocol_data \<Rightarrow> real" where
  "bucket_weight pd = (if lower (protocolType pd) = ''dexes'' then 1 else 1 / 2)"

definition nonneg_amounts :: "transaction \<Rightarrow> bool" where
  \<comment> \<open>Every \<open>amountUSD\<close> of the transaction is non-negative.\<close>
  "nonneg_amounts tx =
     (0 \<le> amount_or_zero (tokenIn tx) \<and> 0 \<le> amount_or_zero (tokenOut tx) \<and>
      0 \<le> amount_or_zero (token0 tx) \<and> 0 \<le> amount_or_zero (token1 tx))"

section \<open>Example inputs\<close>

definition usd :: "real \<Rightarrow> token_info" where
  "usd v = \<lparr>amount = 1, amountUSD = v, address = ''0xa0b8'', symbol = ''USDC''\<rparr>"

definition ex_swap :: transaction where
  "ex_swap =
     \<lparr>document_id = ''tx1'', action = ''swap'', timestamp = 1700000000,
      caller = ''0x742d'', protocol = ''uniswap_v3'', poolId = ''0x88e6'',
      poolName = ''USDC/WETH'', tokenIn = Some (usd 1000), tokenOut = Some (usd 1000),
      token0 = None, token1 = None\<rparr>"

definition ex_deposit :: transaction where
  "ex_deposit =
     \<lparr>document_id = ''tx2'', action = ''deposit'', timestamp = 1700003600,
      caller = ''0x742d'', protocol = ''uniswap_v3'', poolId = ''0x88e6'',
      poolName = ''USDC/WETH'', tokenIn = None, tokenOut = None,
      token0 = Some (usd 500), token1 = Some (usd 500)\<rparr>"

definition ex_other_pool :: transaction where
  "ex_other_pool = ex_deposit\<lparr>document_id := ''tx3'', poolId := ''0x4e68''\<rparr>"

definition ex_dex_bucket :: protocol_data where
  "ex_dex_bucket = \<lparr>protocolType = ''dexes'', transactions = [ex_swap, ex_deposit]\<rparr>"

definition ex_lending_bucket :: protocol_data where
  \<comment> \<open>Three transactions across two pools.\<close>
  "ex_lending_bucket =
     \<lparr>protocolType = ''lending'', transactions = [ex_swap, ex_deposit, ex_other_pool]\<rparr>"

definition ex_empty_dex_bucket :: protocol_data where
  "ex_empty_dex_bucket = \<lparr>protocolType = ''dexes'', transactions = []\<rparr>"

definition ex_address :: string where
  "ex_address = ''0x742d35Cc6634C0532925a3b8D4C9db96590e4265''"

definition ex_nonhex_address :: string where
  \<comment> \<open>\<open>0x\<close> followed by 40 characters that are not hexadecimal digits.\<close>
  "ex_nonhex_address = ''0xzzzzzzzzzzzzzzzzzzzzzzzzzzzzzzzzzzzzzzzz''"

definition ex_env :: environment where
  \<comment> \<open>A broker that acknowledges every record, and a clock. Every string that
      \<open>is_fixed_point_18\<close> accepts is one that \<open>Decimal\<close> parses.\<close>
  "ex_env =
     \<lparr>decimal_parses = is_fixed_point_18, broker_acks = (\<lambda>r. True),
      scoring_now = 1700090000, t_start = 1700090000, t_scored = 1700090000 + 1 / 4,
      t_success_stamp = 1700090000 + 1 / 4, t_failed = 1700090000 + 1 / 2,
      t_failure_stamp = 1700090000 + 1 / 2\<rparr>"

definition ex_dex_features :: category_features where
  "ex_dex_features =
     \<lparr>total_deposit_usd = 1000, total_swap_volume = 1000, num_deposits = 1, num_swaps = 1,
      avg_hold_time_days = 1, unique_pools = 1, total_withdraw_usd = 0, num_withdraws = 0,
      avg_transaction_size_usd = 1000, transaction_frequency_days = 0\<rparr>"

definition ex_dex_category :: category_score where
  \<comment> \<open>The score of \<open>ex_dex_bucket\<close> one day after its transactions: the liquidity score
      and the trading score are both 325.\<close>
  "ex_dex_category =
     \<lparr>category = ''dexes'', score = py_round2 (normalize_score 325), transaction_count = 2,
      features = ex_dex_features\<rparr>"

definition ex_invalid_wallet :: wallet_transaction_input where
  "ex_invalid_wallet = \<lparr>wallet_address = ''invalid_address'', data = []\<rparr>"

definition ex_nonhex_wallet :: wallet_transaction_input where
  "ex_nonhex_wallet = \<lparr>wallet_address = ex_nonhex_address, data = []\<rparr>"

definition ex_empty_dex_wallet :: wallet_transaction_input where
  "ex_empty_dex_wallet = \<lparr>wallet_address = ex_address, data = [ex_empty_dex_bucket]\<rparr>"

definition no_field_transaction_count :: py_error where
  "no_field_transaction_count =
     ValueError ''\"CategoryFeatures\" object has no field \"transaction_count\"''"

definition ex_dex_wallet :: wallet_transaction_input where
  "ex_dex_wallet = \<lparr>wallet_address = ex_address, data = [ex_dex_bucket]\<rparr>"

definition ex_success :: wallet_score_success where
  "ex_success =
     \<lparr>ok_wallet_address = ex_address, zscore = format_18f (score ex_dex_category),
      ok_timestamp = 1700090000, ok_processing_time_ms = 250,
      ok_categories = [ex_dex_category]\<rparr>"

section \<open>Components of the liquidity score\<close>

text \<open>
  The bonus for the deposited volume, the retention bonus, and the three bonuses that do
  not read \<open>total_deposit_usd\<close>, as \<open>calculate_lp_score\<close> adds them.
\<close>

definition volume_bonus :: "real \<Rightarrow> real" where
  "volume_bonus d = (if d \<ge> 100000 then 300 else if d \<ge> 10000 then 200
                     else if d \<ge> 1000 then 150 else if d \<ge> 100 then 100 else 0)"

definition retention_bonus :: "real \<Rightarrow> real \<Rightarrow> real" where
  "retention_bonus w d = (if d > w then (d - w) / d * 100 else 0)"

definition other_bonuses :: "category_features \<Rightarrow> real" where
  "other_bonuses f =
     (if num_deposits f \<ge> 50 then 200 else if num_deposits f \<ge> 20 then 150
      else if num_deposits f \<ge> 5 then 100 else if num_deposits f \<ge> 1 then 50 else 0)
   + (if avg_hold_time_days f \<ge> 365 then 200 else if avg_hold_time_days f \<ge> 90 then 150
      else if avg_hold_time_days f \<ge> 30 then 100 else if avg_hold_time_days f \<ge> 7 then 50 else 0)
   + (if unique_pools f \<ge> 5 then 100 else if unique_pools f \<ge> 3 then 50
      else if unique_pools f \<ge> 1 then 25 else 0)"

definition ex_negative_withdraw :: category_features where
  \<comment> \<open>Features whose withdrawn total is negative, all others at their defaults.\<close>
  "ex_negative_withdraw = default_features\<lparr>total_withdraw_usd := - 100\<rparr>"

section \<open>The frame and the selections of a bucket\<close>

text \<open>
  The row that \<open>tx_row\<close> builds when the timestamp is in range, and the transactions
  that the specification sums and counts over.
\<close>

definition row_of :: "transaction \<Rightarrow> df_row" where
  "row_of tx =
     \<lparr>row_document_id = document_id tx, row_action = action tx,
      row_timestamp = timestamp tx, row_caller = caller tx,
      row_protocol = protocol tx, row_poolId = poolId tx,
      row_poolName = poolName tx,
      token_in_amount = amount_or_zero (tokenIn tx),
      token_out_amount = amount_or_zero (tokenOut tx),
      token0_amount = amount_or_zero (token0 tx),
      token1_amount = amount_or_zero (token1 tx),
      row_datetime = timestamp tx\<rparr>"

definition swap_txs :: "transaction list \<Rightarrow> transaction list" where
  "swap_txs txs = filter (\<lambda>tx. action tx = ''swap'') txs"

definition deposit_txs :: "transaction list \<Rightarrow> transaction list" where
  "deposit_txs txs = filter (\<lambda>tx. action tx = ''deposit'' \<or> action tx = ''add_liquidity'') txs"

definition ex_df :: "df_row list" where
  "ex_df = [row_of ex_swap, row_of ex_deposit]"

definition ex_negative_deposit :: transaction where
  "ex_negative_deposit = ex_deposit\<lparr>token0 := Some (usd (- 1 / 1000)), token1 := None\<rparr>"

definition ex_negative_withdraw_tx :: transaction where
  "ex_negative_withdraw_tx =
     ex_deposit\<lparr>document_id := ''tx4'', action := ''withdraw'',
                 token0 := Some (usd (- 1000)), token1 := None\<rparr>"

definition ex_negative_features :: category_features where
  "ex_negative_features =
     \<lparr>total_deposit_usd = - 1 / 1000, total_swap_volume = 0, num_deposits = 1,
      num_swaps = 0, avg_hold_time_days = 1, unique_pools = 1,
      total_withdraw_usd = - 1000, num_withdraws = 1,
      avg_transaction_size_usd = - 1000001 / 2000,
      transaction_frequency_days = 0\<rparr>"

section \<open>Invariant of the aggregation loop\<close>

definition acc_ok :: "wallet_acc \<Rightarrow> bool" where
  "acc_ok acc =
     (case acc of (cs, ts, tw) \<Rightarrow>
        list_all (\<lambda>c. 0 \<le> score c \<and> score c \<le> 1000) cs \<and>
        0 \<le> ts \<and> ts \<le> 1000 * tw \<and> 0 \<le> tw)"

section \<open>Properties of the running statistics\<close>

lemma update_stats_balance:
  "successful_wallets (update_stats st ok ms w) + failed_wallets (update_stats st ok ms w)
     - total_wallets_processed (update_stats st ok ms w)
   = successful_wallets st + failed_wallets st - total_wallets_processed st"
  by (simp add: update_stats_def Let_def)

lemma foldl_apply_update_balance:
  "successful_wallets (foldl apply_update st us) + failed_wallets (foldl apply_update st us)
     - total_wallets_processed (foldl apply_update st us)
   = successful_wallets st + failed_wallets st - total_wallets_processed st"
proof (induction us arbitrary: st)
  case Nil
  show ?case by simp
next
  case (Cons u us)
  obtain ok ms w where u: "u = (ok, ms, w)" by (cases u) auto
  show ?case
    using Cons.IH [of "apply_update st u"] update_stats_balance [of st ok ms w]
    by (simp add: apply_update_def u)
qed

text \<open>
  Claim C8. After any sequence of statistics updates that starts from the zeroed counters,
  the successes and the failures add up to the total number of processed wallets, and the
  average processing time reported by \<open>get_stats\<close> is the cumulative processing time
  divided by that total when the total is positive, and 0.0 otherwise.
\<close>

theorem stats_counters_consistent:
  "successful_wallets (run_updates t0 us) + failed_wallets (run_updates t0 us)
     = total_wallets_processed (run_updates t0 us)
   \<and> average_processing_time_ms (get_stats now_time (run_updates t0 us))
     = (if total_wallets_processed (run_updates t0 us) > 0
        then real_of_int (total_processing_time_ms (run_updates t0 us))
               / real_of_int (total_wallets_processed (run_updates t0 us))
        else 0)"
proof -
  have "successful_wallets (run_updates t0 us) + failed_wallets (run_updates t0 us)
          - total_wallets_processed (run_updates t0 us) = 0"
    unfolding run_updates_def
    using foldl_apply_update_balance [of "init_stats t0" us]
    by (simp add: init_stats_def)
  then show ?thesis
    by (simp add: get_stats_def)
qed

section \<open>Properties of the scoring model\<close>

subsection \<open>Rounding and normalisation\<close>

lemma round_half_even_ge: "real_of_int k \<le> y \<Longrightarrow> k \<le> round_half_even y"
  unfolding round_half_even_def Let_def
  by (auto simp: le_floor_iff) (smt (verit) le_floor_iff)+

lemma round_half_even_le: "y \<le> real_of_int k \<Longrightarrow> round_half_even y \<le> k"
  unfolding round_half_even_def Let_def
  by (auto simp: floor_le_iff)

lemma py_round2_bounds:
  assumes "0 \<le> x" "x \<le> 1000"
  shows "0 \<le> py_round2 x \<and> py_round2 x \<le> 1000"
proof -
  have "real_of_int 0 \<le> x * 100" using assms by simp
  then have a: "0 \<le> round_half_even (x * 100)" by (rule round_half_even_ge)
  have "x * 100 \<le> real_of_int 100000" using assms by simp
  then have b: "round_half_even (x * 100) \<le> 100000" by (rule round_half_even_le)
  show ?thesis using a b by (simp add: py_round2_def)
qed

lemma normalize_score_bounds: "0 \<le> normalize_score s \<and> normalize_score s \<le> 1000"
  by (simp add: normalize_score_def)

lemma calculate_dex_score_bounds:
  "calculate_dex_score now txs = Inr c \<Longrightarrow> 0 \<le> score c \<and> score c \<le> 1000"
  using py_round2_bounds normalize_score_bounds
  by (auto simp: calculate_dex_score_def Let_def split: sum.splits)

lemma calculate_basic_protocol_score_bounds:
  "calculate_basic_protocol_score pd = Inr c \<Longrightarrow> 0 \<le> score c \<and> score c \<le> 1000"
  by (auto simp: calculate_basic_protocol_score_def Let_def default_features_def
           split: sum.splits)

subsection \<open>The example bucket\<close>

lemma ex_dex_score:
  "calculate_dex_score 1700090000 [ex_swap, ex_deposit] = Inr ex_dex_category"
  by (simp add: calculate_dex_score_def transactions_to_dataframe_def tx_row_def
      fromtimestamp_def ex_swap_def ex_deposit_def amount_or_zero_def usd_def
      extract_dex_features_def Let_def is_deposit_def is_swap_def is_withdraw_def
      timedelta_days_def calculate_lp_score_def calculate_swap_score_def
      ex_dex_category_def ex_dex_features_def)

lemma lower_dexes: "lower ''dexes'' = ''dexes''"
  by (simp add: lower_def lower_char_def)

lemma lower_lending: "lower ''lending'' \<noteq> ''dexes''"
  by (simp add: lower_def lower_char_def)

lemma ex_dex_wallet_score:
  "process_wallet_data 1700090000 [ex_dex_bucket] = Inr ([ex_dex_category], score ex_dex_category)"
  by (simp add: process_wallet_data_def ex_dex_bucket_def lower_dexes ex_dex_score)

subsection \<open>Range of the scores\<close>

lemma process_loop_acc_ok:
  "process_loop now bs acc = Inr acc' \<Longrightarrow> acc_ok acc \<Longrightarrow> acc_ok acc'"
proof (induction bs arbitrary: acc)
  case Nil
  then show ?case by simp
next
  case (Cons pd rest)
  obtain cs ts tw where acc: "acc = (cs, ts, tw)" by (cases acc) auto
  show ?case
  proof (cases "lower (protocolType pd) = ''dexes''")
    case True
    then obtain c where c: "calculate_dex_score now (transactions pd) = Inr c"
      and rest: "process_loop now rest (cs @ [c], ts + score c * 1, tw + 1) = Inr acc'"
      using Cons.prems(1) acc by (auto split: sum.splits)
    have "acc_ok (cs @ [c], ts + score c * 1, tw + 1)"
      using Cons.prems(2) calculate_dex_score_bounds [OF c] by (simp add: acc acc_ok_def)
    then show ?thesis using Cons.IH [OF rest] by simp
  next
    case False
    then obtain c where c: "calculate_basic_protocol_score pd = Inr c"
      and rest: "process_loop now rest (cs @ [c], ts + score c * (1 / 2), tw + 1 / 2) = Inr acc'"
      using Cons.prems(1) acc by (auto split: sum.splits)
    have "acc_ok (cs @ [c], ts + score c * (1 / 2), tw + 1 / 2)"
      using Cons.prems(2) calculate_basic_protocol_score_bounds [OF c]
      by (simp add: acc acc_ok_def)
    then show ?thesis using Cons.IH [OF rest] by simp
  qed
qed

text \<open>
  Claim C1. Whenever \<open>process_wallet_data\<close> returns for the buckets of a wallet, the
  overall score and the score of every category it produced lie in the closed interval
  from 0 to 1000.
\<close>

theorem wallet_scores_in_range:
  assumes "process_wallet_data now wallet_data = Inr (category_scores, overall_score)"
  shows "0 \<le> overall_score \<and> overall_score \<le> 1000 \<and>
         (\<forall>c \<in> set category_scores. 0 \<le> score c \<and> score c \<le> 1000)"
proof -
  obtain ts tw
    where loop: "process_loop now wallet_data ([], 0, 0) = Inr (category_scores, ts, tw)"
      and ov: "overall_score = (if tw > 0 then ts / tw else 0)"
    using assms by (auto simp: process_wallet_data_def split: sum.splits prod.splits)
  have "acc_ok ([], 0, 0)" by (simp add: acc_ok_def)
  then have ok: "acc_ok (category_scores, ts, tw)"
    using process_loop_acc_ok [OF loop] by simp
  then have "0 \<le> ts" "ts \<le> 1000 * tw" "0 \<le> tw" by (simp_all add: acc_ok_def)
  then have "0 \<le> overall_score \<and> overall_score \<le> 1000"
    by (simp add: ov pos_divide_le_eq)
  moreover have "\<forall>c \<in> set category_scores. 0 \<le> score c \<and> score c \<le> 1000"
    using ok by (simp add: acc_ok_def list_all_iff)
  ultimately show ?thesis by simp
qed

theorem wallet_scores_in_range_witness:
  "process_wallet_data 1700090000 [ex_dex_bucket]
     = Inr ([ex_dex_category], score ex_dex_category)
   \<and> 0 \<le> score ex_dex_category \<and> score ex_dex_category \<le> 1000"
  using wallet_scores_in_range [OF ex_dex_wallet_score] ex_dex_wallet_score by simp

subsection \<open>The fallback score of the other protocols\<close>

lemma basic_score_raises: "calculate_basic_protocol_score pd = Inl no_field_transaction_count"
  by (simp add: calculate_basic_protocol_score_def setattr_check_def
      category_features_fields_def no_field_transaction_count_def)

text \<open>
  Claim C2. The specification gives a bucket that is not \<open>dexes\<close>, with 3 transactions
  across 2 pools, the score 40. The source never reaches that score: its first statement
  assigns the attribute \<open>transaction_count\<close>, which \<open>CategoryFeatures\<close> does not
  declare, and the assignment raises \<open>ValueError\<close>.
\<close>

theorem basic_protocol_score_raises:
  "lower (protocolType ex_lending_bucket) \<noteq> ''dexes''
   \<and> int (length (transactions ex_lending_bucket)) = 3
   \<and> int (card (poolId ` set (transactions ex_lending_bucket))) = 2
   \<and> basic_score_spec ex_lending_bucket = 40
   \<and> calculate_basic_protocol_score ex_lending_bucket = Inl no_field_transaction_count"
  by (simp add: basic_score_raises basic_score_spec_def ex_lending_bucket_def ex_swap_def
      ex_deposit_def ex_other_pool_def py_round2_def round_half_even_def lower_lending)

subsection \<open>Buckets on which scoring raises\<close>

lemma dex_empty_raises: "calculate_dex_score now [] = Inl (KeyError ''timestamp'')"
  by (simp add: calculate_dex_score_def transactions_to_dataframe_def)

lemma process_loop_raises:
  assumes "pd \<in> set bs"
    and "calculate_dex_score now (transactions pd) = Inl e
         \<or> lower (protocolType pd) \<noteq> ''dexes''"
  shows "\<exists>e'. process_loop now bs acc = Inl e'"
  using assms
proof (induction bs arbitrary: acc)
  case Nil
  then show ?case by simp
next
  case (Cons b rest)
  obtain cs ts tw where acc: "acc = (cs, ts, tw)" by (cases acc) auto
  show ?case
  proof (cases "b = pd")
    case True
    then show ?thesis
      using Cons.prems(2) by (auto simp: acc basic_score_raises split: sum.splits)
  next
    case False
    then have "pd \<in> set rest" using Cons.prems(1) by simp
    then have "\<And>a. \<exists>e'. process_loop now rest a = Inl e'"
      using Cons.IH Cons.prems(2) by blast
    then show ?thesis by (auto simp: acc split: sum.splits)
  qed
qed

lemma process_wallet_data_raises:
  assumes "pd \<in> set bs"
    and "calculate_dex_score now (transactions pd) = Inl e
         \<or> lower (protocolType pd) \<noteq> ''dexes''"
  shows "\<exists>e'. process_wallet_data now bs = Inl e'"
proof -
  obtain e' where "process_loop now bs ([], 0, 0) = Inl e'"
    using process_loop_raises [OF assms] by blast
  then show ?thesis by (simp add: process_wallet_data_def)
qed

subsection \<open>Wallet aggregation\<close>

lemma process_wallet_data_empty: "process_wallet_data now [] = Inr ([], 0)"
  by (simp add: process_wallet_data_def)

lemma process_loop_weighted:
  "process_loop now bs (cs, ts, tw) = Inr (cs', ts', tw') \<Longrightarrow>
   \<exists>new. cs' = cs @ new \<and> length new = length bs \<and>
         ts' = ts + (\<Sum>(pd, c)\<leftarrow>zip bs new. bucket_weight pd * score c) \<and>
         tw' = tw + sum_list (map bucket_weight bs)"
proof (induction bs arbitrary: cs ts tw)
  case Nil
  then show ?case by simp
next
  case (Cons b rest)
  show ?case
  proof (cases "lower (protocolType b) = ''dexes''")
    case True
    then obtain c where "calculate_dex_score now (transactions b) = Inr c"
      and rest: "process_loop now rest (cs @ [c], ts + score c * 1, tw + 1) = Inr (cs', ts', tw')"
      using Cons.prems by (auto split: sum.splits)
    from Cons.IH [OF rest] obtain new
      where new: "cs' = (cs @ [c]) @ new" "length new = length rest"
        "ts' = ts + score c * 1 + (\<Sum>(pd, c)\<leftarrow>zip rest new. bucket_weight pd * score c)"
        "tw' = tw + 1 + sum_list (map bucket_weight rest)"
      by blast
    have w: "bucket_weight b = 1" using True by (simp add: bucket_weight_def)
    show ?thesis
      by (rule exI [of _ "c # new"]) (simp add: new w)
  next
    case False
    then obtain c where "calculate_basic_protocol_score b = Inr c"
      and rest: "process_loop now rest (cs @ [c], ts + score c * (1 / 2), tw + 1 / 2)
                   = Inr (cs', ts', tw')"
      using Cons.prems by (auto split: sum.splits)
    from Cons.IH [OF rest] obtain new
      where new: "cs' = (cs @ [c]) @ new" "length new = length rest"
        "ts' = ts + score c * (1 / 2)
                 + (\<Sum>(pd, c)\<leftarrow>zip rest new. bucket_weight pd * score c)"
        "tw' = tw + 1 / 2 + sum_list (map bucket_weight rest)"
      by blast
    have w: "bucket_weight b = 1 / 2" using False by (simp add: bucket_weight_def)
    show ?thesis
      by (rule exI [of _ "c # new"]) (simp add: new w)
  qed
qed

text \<open>
  Claim C3. The specification gives every bucket list an overall score, the mean of the
  bucket scores weighted 1.0 for \<open>dexes\<close> and 0.5 for the others. For the list of one
  \<open>dexes\<close> bucket and one other bucket the source returns no score at all: the first
  bucket is scored, the fallback score of the second raises, and the exception leaves
  \<open>process_wallet_data\<close>. The empty list does give the overall score 0.0 and no category.
\<close>

theorem mixed_wallet_raises:
  "calculate_dex_score 1700090000 (transactions ex_dex_bucket) = Inr ex_dex_category
   \<and> bucket_weight ex_dex_bucket = 1 \<and> bucket_weight ex_lending_bucket = 1 / 2
   \<and> process_wallet_data 1700090000 [ex_dex_bucket, ex_lending_bucket]
       = Inl no_field_transaction_count
   \<and> process_wallet_data 1700090000 [] = Inr ([], 0)"
  by (simp add: process_wallet_data_def bucket_weight_def ex_dex_bucket_def ex_lending_bucket_def
      lower_dexes lower_lending ex_dex_score basic_score_raises)

section \<open>Properties of the stream processor\<close>

subsection \<open>Formatting the score zero\<close>

lemma frac_digits_zero: "frac_digits k 0 = replicate k (CHR ''0'')"
  by (induction k) (simp_all add: digit_char_def replicate_append_same)

lemma round_half_even_zero: "round_half_even 0 = 0"
  by (simp add: round_half_even_def)

lemma str_nat_zero: "str_nat 0 = ''0''"
  by (simp add: str_nat.simps [of 0] digit_char_def)

lemma replicate_18: "replicate 18 (CHR ''0'') = ''000000000000000000''"
  by (simp add: numeral_eq_Suc)

lemma format_18f_zero: "format_18f 0 = ''0.000000000000000000''"
  by (simp add: format_18f_def round_half_even_zero str_nat_zero frac_digits_zero replicate_18)

lemma fixed_point_zero: "is_fixed_point_18 ''0.000000000000000000''"
  by (simp add: is_fixed_point_18_def is_digit_def)

subsection \<open>The failure branches\<close>

lemma handle_failure_eq:
  "handle_failure env st addr msg m =
     (if broker_acks env (Failure (failure_record env addr msg m))
      then (update_stats st False (fail_processing_time_ms (failure_record env addr msg m)) addr,
            [Failure (failure_record env addr msg m)], None)
      else (st, [], Some (KafkaError ''send failed'')))"
  by (simp add: handle_failure_def publish_def Let_def failure_record_def)

lemma ex_nonhex_not_contract: "\<not> address_contract ex_nonhex_address"
  by (simp add: address_contract_def ex_nonhex_address_def is_hex_digit_def)

lemma ex_nonhex_valid: "construct_input ex_nonhex_wallet = Inr ex_nonhex_wallet"
  by (simp add: construct_input_def validation_errors_def validate_wallet_address_def
      startswith_def ex_nonhex_address_def ex_nonhex_wallet_def)

text \<open>
  Claim C5, as stated, fails. The validator of the address checks the prefix \<open>0x\<close> and
  the length 42, not the characters in between: the address \<open>0x\<close> followed by 40
  letters \<open>z\<close> does not meet the contract of 40 hexadecimal characters, and the message is
  answered with a success record.
\<close>

theorem nonhex_address_succeeds:
  "\<not> address_contract (wallet_address ex_nonhex_wallet) \<and>
   process_message ex_env (init_stats 0) ex_nonhex_wallet
   = (update_stats (init_stats 0) True 250 ex_nonhex_address,
      [Success \<lparr>ok_wallet_address = ex_nonhex_address, zscore = ''0.000000000000000000'',
                ok_timestamp = 1700090000, ok_processing_time_ms = 250,
                ok_categories = []\<rparr>],
      None)"
proof -
  have d: "data ex_nonhex_wallet = []" "wallet_address ex_nonhex_wallet = ex_nonhex_address"
    by (simp_all add: ex_nonhex_wallet_def)
  show ?thesis
    using ex_nonhex_not_contract
    by (simp add: process_message_def ex_nonhex_valid d process_wallet_data_empty
        format_18f_zero fixed_point_zero ex_env_def publish_def py_int_def Let_def)
qed

text \<open>
  Claim C5, amended. A message whose address does not start with \<open>0x\<close> or whose
  length is not 42 never gives a success record: the handler hands exactly one record to
  the broker, a failure record for the wallet \<open>unknown\<close>. When the broker acknowledges
  it, that record is the only one published and the message is counted as a failure;
  otherwise the send raises and nothing is published.
\<close>

theorem invalid_address_fails:
  assumes "\<not> startswith (wallet_address m) ''0x'' \<or> length (wallet_address m) \<noteq> 42"
  shows "\<exists>fr. fail_wallet_address fr = ''unknown'' \<and>
           process_message env st m =
             (if broker_acks env (Failure fr)
              then (update_stats st False (fail_processing_time_ms fr) ''unknown'',
                    [Failure fr], None)
              else (st, [], Some (KafkaError ''send failed'')))"
proof -
  have "validation_errors m \<noteq> []"
    using assms by (auto simp: validation_errors_def validate_wallet_address_def)
  then obtain e where e: "construct_input m = Inl e"
    by (simp add: construct_input_def)
  let ?fr = "failure_record env ''unknown'' (''Validation error: '' @ str_of_error e) m"
  have "fail_wallet_address ?fr = ''unknown''" by (simp add: failure_record_def)
  moreover have "process_message env st m =
             (if broker_acks env (Failure ?fr)
              then (update_stats st False (fail_processing_time_ms ?fr) ''unknown'',
                    [Failure ?fr], None)
              else (st, [], Some (KafkaError ''send failed'')))"
    by (simp add: process_message_def e handle_failure_eq)
  ultimately show ?thesis by blast
qed

theorem invalid_address_fails_witness:
  "\<not> startswith (wallet_address ex_invalid_wallet) ''0x'' \<and>
   (\<exists>fr. fail_wallet_address fr = ''unknown'' \<and>
      process_message ex_env (init_stats 0) ex_invalid_wallet =
        (update_stats (init_stats 0) False (fail_processing_time_ms fr) ''unknown'',
         [Failure fr], None))"
proof -
  have h: "\<not> startswith (wallet_address ex_invalid_wallet) ''0x''"
    by (simp add: ex_invalid_wallet_def startswith_def)
  then have "\<not> startswith (wallet_address ex_invalid_wallet) ''0x''
             \<or> length (wallet_address ex_invalid_wallet) \<noteq> 42"
    by simp
  from invalid_address_fails [OF this, of ex_env "init_stats 0"] h
  show ?thesis by (simp add: ex_env_def)
qed

text \<open>
  Claim C10. A valid input with a \<open>dexes\<close> bucket that has no transactions makes the
  scoring raise: the frame built from no rows has no column \<open>timestamp\<close> to sort by. The
  handler answers with a failure record for the wallet and no success record.
\<close>

theorem empty_dex_bucket_fails:
  assumes "construct_input m = Inr m"
    and "pd \<in> set (data m)"
    and "lower (protocolType pd) = ''dexes''"
    and "transactions pd = []"
  shows "calculate_dex_score (scoring_now env) (transactions pd) = Inl (KeyError ''timestamp'')
         \<and> (\<exists>e. process_wallet_data (scoring_now env) (data m) = Inl e)
         \<and> (\<exists>fr. fail_wallet_address fr = wallet_address m \<and>
               process_message env st m =
                 (if broker_acks env (Failure fr)
                  then (update_stats st False (fail_processing_time_ms fr) (wallet_address m),
                        [Failure fr], None)
                  else (st, [], Some (KafkaError ''send failed''))))"
proof -
  have k: "calculate_dex_score (scoring_now env) (transactions pd) = Inl (KeyError ''timestamp'')"
    using assms(4) by (simp add: dex_empty_raises)
  then obtain e where e: "process_wallet_data (scoring_now env) (data m) = Inl e"
    using process_wallet_data_raises [OF assms(2), of "scoring_now env" "KeyError ''timestamp''"]
    by blast
  let ?fr = "failure_record env (wallet_address m) (''Processing error: '' @ str_of_error e) m"
  have "fail_wallet_address ?fr = wallet_address m" by (simp add: failure_record_def)
  moreover have "process_message env st m =
                 (if broker_acks env (Failure ?fr)
                  then (update_stats st False (fail_processing_time_ms ?fr) (wallet_address m),
                        [Failure ?fr], None)
                  else (st, [], Some (KafkaError ''send failed'')))"
    by (simp add: process_message_def assms(1) e handle_failure_eq)
  ultimately show ?thesis using k e by blast
qed

lemma ex_empty_dex_valid: "construct_input ex_empty_dex_wallet = Inr ex_empty_dex_wallet"
  by (simp add: construct_input_def validation_errors_def validate_wallet_address_def
      startswith_def ex_address_def ex_empty_dex_wallet_def ex_empty_dex_bucket_def)

theorem empty_dex_bucket_fails_witness:
  "construct_input ex_empty_dex_wallet = Inr ex_empty_dex_wallet
   \<and> ex_empty_dex_bucket \<in> set (data ex_empty_dex_wallet)
   \<and> lower (protocolType ex_empty_dex_bucket) = ''dexes''
   \<and> transactions ex_empty_dex_bucket = []
   \<and> (\<exists>e. process_wallet_data (scoring_now ex_env) (data ex_empty_dex_wallet) = Inl e)
   \<and> (\<exists>fr. fail_wallet_address fr = ex_address \<and>
         process_message ex_env (init_stats 0) ex_empty_dex_wallet =
           (update_stats (init_stats 0) False (fail_processing_time_ms fr) ex_address,
            [Failure fr], None))"
proof -
  have a: "ex_empty_dex_bucket \<in> set (data ex_empty_dex_wallet)"
    by (simp add: ex_empty_dex_wallet_def)
  have b: "lower (protocolType ex_empty_dex_bucket) = ''dexes''"
    by (simp add: ex_empty_dex_bucket_def lower_dexes)
  have c: "transactions ex_empty_dex_bucket = []"
    by (simp add: ex_empty_dex_bucket_def)
  have d: "wallet_address ex_empty_dex_wallet = ex_address"
    by (simp add: ex_empty_dex_wallet_def)
  have acks: "\<And>r. broker_acks ex_env r" by (simp add: ex_env_def)
  from empty_dex_bucket_fails [OF ex_empty_dex_valid a b c, of ex_env "init_stats 0"]
  show ?thesis using ex_empty_dex_valid a b c by (simp add: d acks)
qed

subsection \<open>The format of the published score\<close>

lemma is_digit_digit_char: "is_digit (digit_char d)"
proof -
  have "d mod 10 < length ''0123456789''" by simp
  then have "''0123456789'' ! (d mod 10) \<in> set ''0123456789''" by (rule nth_mem)
  then show ?thesis by (simp only: is_digit_def digit_char_def)
qed

lemma str_nat_digits: "list_all is_digit (str_nat n) \<and> str_nat n \<noteq> []"
proof (induction n rule: str_nat.induct)
  case (1 n)
  show ?case
  proof (cases "n < 10")
    case True
    then show ?thesis by (simp add: str_nat.simps [of n] is_digit_digit_char)
  next
    case False
    then show ?thesis using 1 by (simp add: str_nat.simps [of n] is_digit_digit_char)
  qed
qed

lemma frac_digits_length: "length (frac_digits k n) = k"
  by (induction k arbitrary: n) simp_all

lemma frac_digits_digits: "list_all is_digit (frac_digits k n)"
  by (induction k arbitrary: n) (simp_all add: is_digit_digit_char)

lemma not_digit_point: "\<not> is_digit (CHR ''.'')" "\<not> is_digit (CHR ''-'')"
  by (simp_all add: is_digit_def)

lemma fixed_point_shape:
  assumes "list_all is_digit ds" "ds \<noteq> []" "length fs = 18" "list_all is_digit fs"
  shows "is_fixed_point_18 (ds @ ''.'' @ fs)" "is_fixed_point_18 (''-'' @ ds @ ''.'' @ fs)"
proof -
  obtain c cs where ds: "ds = c # cs" using assms(2) by (cases ds) auto
  have c: "is_digit c" using assms(1) ds by simp
  then have nm: "c \<noteq> CHR ''-''" using not_digit_point(2) by auto
  have all: "\<forall>x \<in> set ds. is_digit x" using assms(1) by (simp add: list_all_iff)
  have tw: "takeWhile is_digit (ds @ ''.'' @ fs) = ds"
    using all by (simp add: takeWhile_append2 not_digit_point)
  have dw: "dropWhile is_digit (ds @ ''.'' @ fs) = ''.'' @ fs"
    using all by (simp add: dropWhile_append2 not_digit_point)
  have body1: "(case ds @ ''.'' @ fs of [] \<Rightarrow> ds @ ''.'' @ fs
                | c # cs \<Rightarrow> if c = CHR ''-'' then cs else ds @ ''.'' @ fs) = ds @ ''.'' @ fs"
    using nm by (simp add: ds)
  show "is_fixed_point_18 (ds @ ''.'' @ fs)"
    unfolding is_fixed_point_18_def body1 Let_def tw dw
    using assms by simp
  show "is_fixed_point_18 (''-'' @ ds @ ''.'' @ fs)"
    unfolding is_fixed_point_18_def Let_def
    using assms tw dw by simp
qed

lemma format_18f_fixed_point: "is_fixed_point_18 (format_18f x)"
  unfolding format_18f_def Let_def
  using fixed_point_shape [OF conjunct1 [OF str_nat_digits] conjunct2 [OF str_nat_digits]
      frac_digits_length frac_digits_digits]
  by simp

text \<open>
  Claim C6. Every success record that the handler of a message publishes carries a
  \<open>zscore\<close> in fixed-point notation: an optional sign, the digits of the integer part, a
  point and exactly 18 digits, and so no exponent.
\<close>

theorem zscore_fixed_point:
  assumes "process_message env st m = (st', published, exc)"
    and "Success r \<in> set published"
  shows "is_fixed_point_18 (zscore r)"
  using assms format_18f_fixed_point
  by (auto simp: process_message_def handle_failure_eq Let_def publish_def
           split: sum.splits prod.splits if_splits)

lemma ex_dex_valid: "construct_input ex_dex_wallet = Inr ex_dex_wallet"
  by (simp add: construct_input_def validation_errors_def validate_wallet_address_def
      startswith_def ex_address_def ex_dex_wallet_def ex_dex_bucket_def action_errors_def
      validate_action_def valid_actions_def ex_swap_def ex_deposit_def)

lemma ex_dex_message:
  "process_message ex_env (init_stats 0) ex_dex_wallet
   = (update_stats (init_stats 0) True 250 ex_address, [Success ex_success], None)"
proof -
  have d: "data ex_dex_wallet = [ex_dex_bucket]" "wallet_address ex_dex_wallet = ex_address"
    by (simp_all add: ex_dex_wallet_def)
  show ?thesis
    by (simp add: process_message_def ex_dex_valid d ex_env_def ex_dex_wallet_score
        format_18f_fixed_point py_int_def publish_def Let_def ex_success_def)
qed

theorem zscore_fixed_point_witness:
  "process_message ex_env (init_stats 0) ex_dex_wallet
     = (update_stats (init_stats 0) True 250 ex_address, [Success ex_success], None)
   \<and> Success ex_success \<in> set [Success ex_success]
   \<and> is_fixed_point_18 (zscore ex_success)"
  using zscore_fixed_point [OF ex_dex_message, of ex_success] ex_dex_message by simp

section \<open>Properties of the liquidity score\<close>

lemma lp_score_decomposed:
  assumes "0 \<le> total_withdraw_usd f"
  shows "calculate_lp_score f =
         min (volume_bonus (total_deposit_usd f) + other_bonuses f
              + retention_bonus (total_withdraw_usd f) (total_deposit_usd f)) 1000"
proof -
  have nz: "total_deposit_usd f > total_withdraw_usd f \<Longrightarrow> total_deposit_usd f \<noteq> 0"
    using assms by auto
  show ?thesis
    unfolding calculate_lp_score_def Let_def volume_bonus_def other_bonuses_def retention_bonus_def
    using nz by (simp add: algebra_simps)
qed

lemma volume_bonus_mono: "d \<le> d' \<Longrightarrow> volume_bonus d \<le> volume_bonus d'"
  by (simp add: volume_bonus_def)

lemma retention_bonus_mono:
  assumes "0 \<le> w" "d \<le> d'"
  shows "retention_bonus w d \<le> retention_bonus w d'"
proof (cases "d > w")
  case True
  then have pos: "0 < d" "0 < d'" "d' > w" using assms by auto
  have "w / d' \<le> w / d" using assms pos by (simp add: frac_le)
  then have "(d - w) / d \<le> (d' - w) / d'"
    using pos by (simp add: diff_divide_distrib)
  then have "(d - w) / d * 100 \<le> (d' - w) / d' * 100" by (rule mult_right_mono) simp
  then show ?thesis using True pos by (simp only: retention_bonus_def if_True)
next
  case False
  have "0 \<le> retention_bonus w d'"
    using assms by (auto simp: retention_bonus_def)
  then show ?thesis using False by (simp add: retention_bonus_def)
qed

text \<open>
  Claim C7, as stated, fails when the withdrawn total is negative: the retention bonus
  \<open>100 \<times> (deposit - withdraw) / deposit\<close> then shrinks as the deposit grows. With
  \<open>total_withdraw_usd = -100\<close> and every other field at its default, the deposit 50
  (below the low threshold) scores 300 and the deposit 1000 (the medium tier) scores 260.
\<close>

theorem lp_score_decreases:
  "calculate_lp_score (ex_negative_withdraw\<lparr>total_deposit_usd := 50\<rparr>) = 300
   \<and> calculate_lp_score (ex_negative_withdraw\<lparr>total_deposit_usd := 1000\<rparr>) = 260"
  by (simp add: calculate_lp_score_def default_features_def ex_negative_withdraw_def)

text \<open>
  Claim C7, amended. When the withdrawn total is not negative and all other features are
  held fixed, the liquidity score does not decrease when \<open>total_deposit_usd\<close> increases.
\<close>

theorem lp_score_monotone:
  assumes "0 \<le> total_withdraw_usd f" and "d \<le> d'"
  shows "calculate_lp_score (f\<lparr>total_deposit_usd := d\<rparr>)
         \<le> calculate_lp_score (f\<lparr>total_deposit_usd := d'\<rparr>)"
proof -
  have o: "other_bonuses (f\<lparr>total_deposit_usd := d\<rparr>)
           = other_bonuses (f\<lparr>total_deposit_usd := d'\<rparr>)"
    by (simp add: other_bonuses_def)
  show ?thesis
    using volume_bonus_mono [OF assms(2)] retention_bonus_mono [OF assms]
    by (simp add: lp_score_decomposed assms(1) o)
qed

theorem lp_score_monotone_witness:
  "0 \<le> total_withdraw_usd default_features \<and> (50 :: real) \<le> 1000
   \<and> calculate_lp_score (default_features\<lparr>total_deposit_usd := 50\<rparr>) = 100
   \<and> calculate_lp_score (default_features\<lparr>total_deposit_usd := 1000\<rparr>) = 250
   \<and> calculate_lp_score (default_features\<lparr>total_deposit_usd := 50\<rparr>)
       \<le> calculate_lp_score (default_features\<lparr>total_deposit_usd := 1000\<rparr>)"
proof -
  have w: "0 \<le> total_withdraw_usd default_features" by (simp add: default_features_def)
  have v: "calculate_lp_score (default_features\<lparr>total_deposit_usd := 50\<rparr>) = 100"
    "calculate_lp_score (default_features\<lparr>total_deposit_usd := 1000\<rparr>) = 250"
    by (simp_all add: calculate_lp_score_def default_features_def)
  have "(50 :: real) \<le> 1000" by simp
  from lp_score_monotone [OF w this] show ?thesis using w v by simp
qed

section \<open>Properties of the feature extraction\<close>

lemma tx_row_Inr: "tx_row tx = Inr r \<Longrightarrow> r = row_of tx"
  by (auto simp: tx_row_def row_of_def fromtimestamp_def split: if_splits)

lemma build_rows_Inr: "build_rows txs = Inr rows \<Longrightarrow> rows = map row_of txs"
proof (induction txs arbitrary: rows)
  case Nil
  then show ?case by simp
next
  case (Cons tx txs)
  then show ?case by (auto split: sum.splits dest: tx_row_Inr)
qed

lemma dataframe_Inr:
  assumes "transactions_to_dataframe txs = Inr df"
  shows "txs \<noteq> [] \<and> df = sort_key row_timestamp (map row_of txs)"
proof -
  obtain rows where r: "build_rows txs = Inr rows" "rows \<noteq> []" "df = sort_key row_timestamp rows"
    using assms by (auto simp: transactions_to_dataframe_def split: sum.splits if_splits)
  have "rows = map row_of txs" using r(1) by (rule build_rows_Inr)
  then show ?thesis using r by auto
qed

lemma sum_list_sort_key: "sum_list (map g (sort_key f xs)) = sum_list (map (g :: 'a \<Rightarrow> real) xs)"
proof -
  have "sum_mset (image_mset g (mset (sort_key f xs))) = sum_mset (image_mset g (mset xs))"
    by simp
  then show ?thesis by (simp only: mset_map [symmetric] sum_mset_sum_list)
qed

lemma filter_rows:
  "filter P (sort_key row_timestamp (map row_of txs))
   = sort_key row_timestamp (map row_of (filter (\<lambda>tx. P (row_of tx)) txs))"
  by (simp add: filter_sort filter_map comp_def)

lemma count_rows:
  "length (filter P (sort_key row_timestamp (map row_of txs)))
   = length (filter (\<lambda>tx. P (row_of tx)) txs)"
  by (simp add: filter_rows)

lemma sum_rows:
  "sum_list (map g (filter P (sort_key row_timestamp (map row_of txs))))
   = (\<Sum>tx\<leftarrow>filter (\<lambda>tx. P (row_of tx)) txs. (g (row_of tx) :: real))"
  by (simp add: filter_rows sum_list_sort_key comp_def)

lemma pools_rows:
  "length (remdups (map row_poolId (sort_key row_timestamp (map row_of txs))))
   = card (poolId ` set txs)"
proof -
  have p: "\<And>tx. row_poolId (row_of tx) = poolId tx" by (simp add: row_of_def)
  have "set (map row_poolId (sort_key row_timestamp (map row_of txs))) = poolId ` set txs"
    by (simp add: image_image p)
  then show ?thesis by (simp only: length_remdups_card_conv)
qed

lemma is_swap_row: "is_swap (row_of tx) = (action tx = ''swap'')"
  by (simp add: is_swap_def row_of_def)

lemma is_deposit_row:
  "is_deposit (row_of tx) = (action tx = ''deposit'' \<or> action tx = ''add_liquidity'')"
  by (simp add: is_deposit_def row_of_def)

lemma features_of_frame:
  assumes "txs \<noteq> []"
  shows "num_swaps (extract_dex_features now (sort_key row_timestamp (map row_of txs)))
           = int (length (swap_txs txs))"
    and "num_deposits (extract_dex_features now (sort_key row_timestamp (map row_of txs)))
           = int (length (deposit_txs txs))"
    and "total_swap_volume (extract_dex_features now (sort_key row_timestamp (map row_of txs)))
           = (\<Sum>tx\<leftarrow>swap_txs txs. amount_or_zero (tokenIn tx))"
    and "total_deposit_usd (extract_dex_features now (sort_key row_timestamp (map row_of txs)))
           = (\<Sum>tx\<leftarrow>deposit_txs txs. amount_or_zero (token0 tx) + amount_or_zero (token1 tx))"
    and "unique_pools (extract_dex_features now (sort_key row_timestamp (map row_of txs)))
           = int (card (poolId ` set txs))"
proof -
  have ne: "sort_key row_timestamp (map row_of txs) \<noteq> []"
    using assms by (metis length_sort length_map length_0_conv)
  have t0: "\<And>tx. token0_amount (row_of tx) = amount_or_zero (token0 tx)"
    and t1: "\<And>tx. token1_amount (row_of tx) = amount_or_zero (token1 tx)"
    and ti: "\<And>tx. token_in_amount (row_of tx) = amount_or_zero (tokenIn tx)"
    by (simp_all add: row_of_def)
  show "num_swaps (extract_dex_features now (sort_key row_timestamp (map row_of txs)))
           = int (length (swap_txs txs))"
    by (simp add: extract_dex_features_def ne Let_def count_rows is_swap_row swap_txs_def)
  show "num_deposits (extract_dex_features now (sort_key row_timestamp (map row_of txs)))
           = int (length (deposit_txs txs))"
    by (simp add: extract_dex_features_def ne Let_def count_rows is_deposit_row deposit_txs_def)
  show "total_swap_volume (extract_dex_features now (sort_key row_timestamp (map row_of txs)))
           = (\<Sum>tx\<leftarrow>swap_txs txs. amount_or_zero (tokenIn tx))"
    by (simp add: extract_dex_features_def ne Let_def sum_rows is_swap_row swap_txs_def ti)
  show "total_deposit_usd (extract_dex_features now (sort_key row_timestamp (map row_of txs)))
           = (\<Sum>tx\<leftarrow>deposit_txs txs. amount_or_zero (token0 tx) + amount_or_zero (token1 tx))"
    by (simp add: extract_dex_features_def ne Let_def sum_rows is_deposit_row deposit_txs_def
        t0 t1 sum_list_addf)
  show "unique_pools (extract_dex_features now (sort_key row_timestamp (map row_of txs)))
           = int (card (poolId ` set txs))"
    by (simp add: extract_dex_features_def ne Let_def pools_rows)
qed

lemma ex_frame: "transactions_to_dataframe [ex_swap, ex_deposit] = Inr ex_df"
  by (simp add: transactions_to_dataframe_def tx_row_def fromtimestamp_def ex_df_def row_of_def
      ex_swap_def ex_deposit_def)

lemma ex_selections:
  "swap_txs [ex_swap, ex_deposit] = [ex_swap]"
  "deposit_txs [ex_swap, ex_deposit] = [ex_deposit]"
  "poolId ex_swap = ''0x88e6''"
  "poolId ex_deposit = ''0x88e6''"
  "amount_or_zero (tokenIn ex_swap) = 1000"
  "amount_or_zero (token0 ex_deposit) + amount_or_zero (token1 ex_deposit) = 1000"
  by (simp_all add: swap_txs_def deposit_txs_def ex_swap_def ex_deposit_def amount_or_zero_def
      usd_def)

text \<open>
  Claim C4. For the frame built from the transactions of a bucket, the extracted features
  count the swaps and the deposits (\<open>deposit\<close> or \<open>add_liquidity\<close>), sum
  \<open>tokenIn.amountUSD\<close> over the swaps and \<open>token0.amountUSD + token1.amountUSD\<close> over the
  deposits (a missing token counting as 0), and count the distinct pools. For one swap of
  1000 and one deposit of 500 + 500 on the same pool they are 1, 1, 1000, 1000 and 1.
\<close>

theorem dex_features_extracted:
  assumes "transactions_to_dataframe txs = Inr df"
  shows "num_swaps (extract_dex_features now df) = int (length (swap_txs txs))
       \<and> num_deposits (extract_dex_features now df) = int (length (deposit_txs txs))
       \<and> total_swap_volume (extract_dex_features now df)
           = (\<Sum>tx\<leftarrow>swap_txs txs. amount_or_zero (tokenIn tx))
       \<and> total_deposit_usd (extract_dex_features now df)
           = (\<Sum>tx\<leftarrow>deposit_txs txs. amount_or_zero (token0 tx) + amount_or_zero (token1 tx))
       \<and> unique_pools (extract_dex_features now df) = int (card (poolId ` set txs))
       \<and> transactions_to_dataframe [ex_swap, ex_deposit] = Inr ex_df
       \<and> num_swaps (extract_dex_features now ex_df) = 1
       \<and> num_deposits (extract_dex_features now ex_df) = 1
       \<and> total_swap_volume (extract_dex_features now ex_df) = 1000
       \<and> total_deposit_usd (extract_dex_features now ex_df) = 1000
       \<and> unique_pools (extract_dex_features now ex_df) = 1"
proof -
  have general: "num_swaps (extract_dex_features now d) = int (length (swap_txs ts))
       \<and> num_deposits (extract_dex_features now d) = int (length (deposit_txs ts))
       \<and> total_swap_volume (extract_dex_features now d)
           = (\<Sum>tx\<leftarrow>swap_txs ts. amount_or_zero (tokenIn tx))
       \<and> total_deposit_usd (extract_dex_features now d)
           = (\<Sum>tx\<leftarrow>deposit_txs ts. amount_or_zero (token0 tx) + amount_or_zero (token1 tx))
       \<and> unique_pools (extract_dex_features now d) = int (card (poolId ` set ts))"
    if "transactions_to_dataframe ts = Inr d" for ts d
  proof -
    have "ts \<noteq> []" and d: "d = sort_key row_timestamp (map row_of ts)"
      using dataframe_Inr [OF that] by simp_all
    then show ?thesis
      unfolding d using features_of_frame [of ts now] by blast
  qed
  have "num_swaps (extract_dex_features now ex_df) = 1
       \<and> num_deposits (extract_dex_features now ex_df) = 1
       \<and> total_swap_volume (extract_dex_features now ex_df) = 1000
       \<and> total_deposit_usd (extract_dex_features now ex_df) = 1000
       \<and> unique_pools (extract_dex_features now ex_df) = 1"
    using general [OF ex_frame] by (simp add: ex_selections)
  then show ?thesis using general [OF assms] ex_frame by simp
qed

theorem dex_features_extracted_witness:
  "transactions_to_dataframe [ex_swap, ex_deposit] = Inr ex_df
   \<and> num_swaps (extract_dex_features 1700090000 ex_df)
       = int (length (swap_txs [ex_swap, ex_deposit]))
   \<and> total_deposit_usd (extract_dex_features 1700090000 ex_df)
       = (\<Sum>tx\<leftarrow>deposit_txs [ex_swap, ex_deposit].
            amount_or_zero (token0 tx) + amount_or_zero (token1 tx))
   \<and> total_deposit_usd (extract_dex_features 1700090000 ex_df) = 1000"
  using dex_features_extracted [OF ex_frame, of 1700090000] by simp

section \<open>A lower bound for the score of a bucket of exchanges\<close>

lemma exp_bounds:
  fixes a b :: real
  assumes "a = exp (19 / 8)" "b = exp (5 / 2)"
  shows "27 / 8 \<le> a" "a * (9 / 8) \<le> b" "b \<le> 27"
proof -
  have "1 + 19 / 8 \<le> exp (19 / 8 :: real)" by (rule exp_ge_add_one_self)
  then show "27 / 8 \<le> a" using assms by simp
  have "1 + 1 / 8 \<le> exp (1 / 8 :: real)" by (rule exp_ge_add_one_self)
  then have "exp (19 / 8 :: real) * (9 / 8) \<le> exp (19 / 8) * exp (1 / 8)"
    by (intro mult_left_mono) simp_all
  also have "\<dots> = exp (5 / 2 :: real)" by (simp add: exp_add [symmetric])
  finally show "a * (9 / 8) \<le> b" using assms by simp
  have "exp (5 / 2 :: real) \<le> exp 3" by simp
  also have "exp (3 :: real) = exp 1 ^ 3" using exp_of_nat_mult [of 3 "1 :: real"] by simp
  also have "\<dots> \<le> 3 ^ 3" by (intro power_mono exp_le) simp
  finally show "b \<le> 27" using assms by simp
qed

lemma logistic_gap:
  "1000 / (1 + exp (5 / 2 :: real)) \<le> 1000 / (1 + exp (19 / 8)) - 1 / 200"
proof -
  define a :: real where "a = exp (19 / 8)"
  define b :: real where "b = exp (5 / 2)"
  note bs = exp_bounds [OF a_def b_def]
  have a1: "1 \<le> a" using bs(1) by simp
  have aa: "a * a \<le> 27 * a"
    using bs a1 by (intro mult_right_mono) auto
  have "1000 / (1 + b) \<le> 1000 / (1 + a * (9 / 8))"
    using bs a1 by (intro divide_left_mono) (auto intro: mult_pos_pos add_pos_pos)
  also have "\<dots> \<le> 1000 / (1 + a) - 1 / 200"
  proof -
    have pos: "0 < 1 + a" "0 < 1 + a * (9 / 8)" using a1 by auto
    have e: "(1 + a) * (8 + 9 * a) = 8 + 17 * a + 9 * (a * a)" by (simp add: algebra_simps)
    have "(1 + a) * (8 + 9 * a) \<le> 200000 * a" unfolding e using aa a1 by linarith
    then show ?thesis using pos by (simp add: field_simps)
  qed
  finally show ?thesis by (simp add: a_def b_def)
qed

lemma round_half_even_near: "y - 1 / 2 \<le> real_of_int (round_half_even y)"
  unfolding round_half_even_def Let_def by (auto; linarith)

lemma py_round2_near: "x - 1 / 200 \<le> py_round2 x"
  using round_half_even_near [of "x * 100"] by (simp add: py_round2_def field_simps)

lemma normalize_score_lower:
  assumes "25 \<le> s"
  shows "1000 / (1 + exp (19 / 8)) \<le> normalize_score s"
proof -
  have "- (s - 500) / 200 \<le> 19 / 8" using assms by simp
  then have "exp (- (s - 500) / 200) \<le> exp (19 / 8)" by simp
  then have "1000 / (1 + exp (19 / 8)) \<le> 1000 / (1 + exp (- (s - 500) / 200))"
    by (intro divide_left_mono mult_pos_pos add_pos_pos) simp_all
  moreover have "1000 / (1 + exp (19 / 8 :: real)) \<le> 1000"
    by (simp add: pos_divide_le_eq add_pos_pos)
  moreover have "0 \<le> 1000 / (1 + exp (19 / 8 :: real))" by (simp add: add_nonneg_nonneg)
  ultimately show ?thesis by (simp add: normalize_score_def)
qed

lemma is_withdraw_row:
  "is_withdraw (row_of tx) = (action tx = ''withdraw'' \<or> action tx = ''remove_liquidity'')"
  by (simp add: is_withdraw_def row_of_def)

lemma frame_withdraw_nonneg:
  assumes "txs \<noteq> []" and "list_all nonneg_amounts txs"
  shows "0 \<le> total_withdraw_usd (extract_dex_features now (sort_key row_timestamp (map row_of txs)))"
proof -
  have ne: "sort_key row_timestamp (map row_of txs) \<noteq> []"
    using assms(1) by (metis length_sort length_map length_0_conv)
  have nn: "\<And>tx. tx \<in> set txs \<Longrightarrow>
              0 \<le> token0_amount (row_of tx) \<and> 0 \<le> token1_amount (row_of tx)"
    using assms(2) by (simp add: list_all_iff nonneg_amounts_def row_of_def)
  have "0 \<le> (\<Sum>tx\<leftarrow>filter (\<lambda>tx. is_withdraw (row_of tx)) txs. token0_amount (row_of tx))"
    using nn by (intro sum_list_nonneg) auto
  moreover have "0 \<le> (\<Sum>tx\<leftarrow>filter (\<lambda>tx. is_withdraw (row_of tx)) txs. token1_amount (row_of tx))"
    using nn by (intro sum_list_nonneg) auto
  ultimately show ?thesis
    by (simp add: extract_dex_features_def ne Let_def sum_rows)
qed

lemma frame_pools_pos:
  assumes "txs \<noteq> []"
  shows "1 \<le> unique_pools (extract_dex_features now (sort_key row_timestamp (map row_of txs)))"
proof -
  have "poolId ` set txs \<noteq> {}" using assms by simp
  then have "0 < card (poolId ` set txs)" by (simp add: card_gt_0_iff)
  then show ?thesis using features_of_frame(5) [OF assms, of now] by simp
qed

lemma other_bonuses_lower: "1 \<le> unique_pools f \<Longrightarrow> 25 \<le> other_bonuses f"
  by (simp add: other_bonuses_def)

lemma lp_score_lower:
  assumes "0 \<le> total_withdraw_usd f" "1 \<le> unique_pools f"
  shows "25 \<le> calculate_lp_score f"
proof -
  have v: "0 \<le> volume_bonus (total_deposit_usd f)" by (simp add: volume_bonus_def)
  have r: "0 \<le> retention_bonus (total_withdraw_usd f) (total_deposit_usd f)"
    using assms(1) by (auto simp: retention_bonus_def)
  show ?thesis
    using v r other_bonuses_lower [OF assms(2)] by (simp add: lp_score_decomposed assms(1))
qed

lemma swap_score_lower:
  assumes "1 \<le> unique_pools f"
  shows "25 \<le> calculate_swap_score f"
  using assms by (simp add: calculate_swap_score_def Let_def)

text \<open>
  Claim C9. When a \<open>dexes\<close> bucket is scored without error (it is then not empty) and
  no \<open>amountUSD\<close> in it is negative, its score is at least \<open>1000 / (1 + e\<^sup>5\<^sup>/\<^sup>2)\<close>,
  the value of the logistic curve at the combined score 0: the liquidity score and the
  trading score only add bonuses that are not negative.
\<close>

theorem dex_score_lower_bound:
  assumes "calculate_dex_score now txs = Inr c" and "list_all nonneg_amounts txs"
  shows "1000 / (1 + exp (5 / 2)) \<le> score c"
proof -
  obtain df where df: "transactions_to_dataframe txs = Inr df"
    and c: "score c = py_round2 (normalize_score
              (calculate_lp_score (extract_dex_features now df) * (6 / 10)
               + calculate_swap_score (extract_dex_features now df) * (4 / 10)))"
    using assms(1) by (auto simp: calculate_dex_score_def Let_def split: sum.splits)
  have ne: "txs \<noteq> []" and d: "df = sort_key row_timestamp (map row_of txs)"
    using dataframe_Inr [OF df] by simp_all
  let ?f = "extract_dex_features now df"
  have w: "0 \<le> total_withdraw_usd ?f" unfolding d by (rule frame_withdraw_nonneg [OF ne assms(2)])
  have p: "1 \<le> unique_pools ?f" unfolding d by (rule frame_pools_pos [OF ne])
  have "25 \<le> calculate_lp_score ?f * (6 / 10) + calculate_swap_score ?f * (4 / 10)"
    using lp_score_lower [OF w p] swap_score_lower [OF p] by simp
  then have "1000 / (1 + exp (19 / 8)) \<le> normalize_score
              (calculate_lp_score ?f * (6 / 10) + calculate_swap_score ?f * (4 / 10))"
    by (rule normalize_score_lower)
  then have "1000 / (1 + exp (19 / 8)) - 1 / 200 \<le> score c"
    unfolding c
    using py_round2_near [of "normalize_score
              (calculate_lp_score ?f * (6 / 10) + calculate_swap_score ?f * (4 / 10))"]
    by linarith
  then show ?thesis using logistic_gap by linarith
qed

theorem dex_score_lower_bound_witness:
  "calculate_dex_score 1700090000 [ex_swap, ex_deposit] = Inr ex_dex_category
   \<and> list_all nonneg_amounts [ex_swap, ex_deposit]
   \<and> 1000 / (1 + exp (5 / 2)) \<le> score ex_dex_category"
proof -
  have n: "list_all nonneg_amounts [ex_swap, ex_deposit]"
    by (simp add: nonneg_amounts_def ex_swap_def ex_deposit_def amount_or_zero_def usd_def)
  from dex_score_lower_bound [OF ex_dex_score n] show ?thesis
    using ex_dex_score n by simp
qed

text \<open>
  The condition on the amounts is needed. A deposit of \<open>-0.001\<close> and a withdrawal of
  \<open>-1000\<close> give the retention bonus \<open>100 \<times> 999.999 / (-0.001)\<close>, a liquidity score
  of \<open>-99999825\<close>, and the score 0.
\<close>

lemma round_half_even_small:
  assumes "0 \<le> y" "y < 1 / 2"
  shows "round_half_even y = 0"
proof -
  have "\<lfloor>y\<rfloor> = 0" using assms by (simp add: floor_eq_iff)
  then show ?thesis using assms by (simp add: round_half_even_def)
qed

lemma normalize_score_tiny:
  assumes "s \<le> - 50000000"
  shows "0 \<le> normalize_score s * 100 \<and> normalize_score s * 100 < 1 / 2"
proof -
  have "200001 \<le> 1 + (- (s - 500) / 200)" using assms by simp
  also have "\<dots> \<le> exp (- (s - 500) / 200)" by (rule exp_ge_add_one_self)
  finally have e: "200001 \<le> exp (- (s - 500) / 200)" .
  then have "1000 / (1 + exp (- (s - 500) / 200)) \<le> 1000 / (1 + 200001)"
    by (intro divide_left_mono mult_pos_pos add_pos_pos) simp_all
  moreover have "0 \<le> 1000 / (1 + exp (- (s - 500) / 200))"
    by (simp add: add_nonneg_nonneg)
  ultimately show ?thesis by (simp add: normalize_score_def)
qed

lemma negative_amounts_score_zero:
  "\<exists>c. calculate_dex_score 1700090000 [ex_negative_deposit, ex_negative_withdraw_tx] = Inr c
       \<and> score c = 0"
proof -
  have df: "transactions_to_dataframe [ex_negative_deposit, ex_negative_withdraw_tx]
            = Inr [row_of ex_negative_deposit, row_of ex_negative_withdraw_tx]"
    by (simp add: transactions_to_dataframe_def tx_row_def fromtimestamp_def row_of_def
        ex_negative_deposit_def ex_negative_withdraw_tx_def ex_deposit_def)
  have f: "extract_dex_features 1700090000
             [row_of ex_negative_deposit, row_of ex_negative_withdraw_tx] = ex_negative_features"
    by (simp add: extract_dex_features_def Let_def row_of_def is_deposit_def is_swap_def
        is_withdraw_def timedelta_days_def ex_negative_deposit_def ex_negative_withdraw_tx_def
        ex_deposit_def amount_or_zero_def usd_def ex_negative_features_def)
  have lp: "calculate_lp_score ex_negative_features = - 99999825"
    by (simp add: calculate_lp_score_def ex_negative_features_def)
  have sw: "calculate_swap_score ex_negative_features = 25"
    by (simp add: calculate_swap_score_def ex_negative_features_def)
  have "(- 99999825 :: real) * (6 / 10) + 25 * (4 / 10) \<le> - 50000000" by simp
  then have "round_half_even (normalize_score (- 99999825 * (6 / 10) + 25 * (4 / 10)) * 100) = 0"
    using normalize_score_tiny round_half_even_small by blast
  then show ?thesis
    by (simp add: calculate_dex_score_def df f lp sw Let_def py_round2_def)
qed


end
